theory Spec2Isabelle
  imports Complex_Main
begin

section \<open>The news ingestion notebook: values and effects\<close>

text \<open>
  The notebook \<open>notebooks/data_ingestion.ipynb\<close> reads an API key from the process
  environment into a module global, and defines one function, \<open>fetch_stock_news\<close>, that
  reads the clock, builds a query, performs one \<open>requests.get\<close>, checks the status,
  prints the parsed body and returns the value bound to \<open>"articles"\<close>.

  Everything the function does beyond computing a value is written out: the clock, the
  upstream service, the calls of \<open>requests.get\<close>, the HTTP requests that go out and the
  standard output are fields of a \<open>world\<close> that is passed in and returned, and every
  exception is a value \<open>Inl e\<close>.
\<close>

subsection \<open>Parsed JSON\<close>

text \<open>
  The value \<open>resp.json()\<close> returns: Python's \<open>None\<close>, booleans, integers, strings,
  lists and dictionaries. A dictionary is an association list with distinct keys, in
  insertion order. Strings are byte strings: a Python code point beyond ASCII is its
  UTF-8 bytes. Fractional numbers do not occur in what the notebook handles and are left
  out.
\<close>

datatype json =
  JNull
| JBool bool
| JInt int
| JStr string
| JArr "json list"
| JObj "(string \<times> json) list"

subsection \<open>Numbers\<close>

text \<open>
  \<open>hours_back\<close> is any Python number: an integer or a float. A finite float is a double:
  \<open>Finite m e\<close> stands for \<open>m * 2 ^ e\<close>, with a mantissa \<open>m\<close> below \<open>2 ^ 53\<close> in magnitude
  and \<open>e\<close> at least \<open>- 1074\<close>.
\<close>

datatype float64 = Finite int int | PosInf | NegInf | NaN

datatype number = PyInt int | PyFloat float64

subsection \<open>Dates and durations\<close>

text \<open>
  A naive \<open>datetime\<close> is the number of microseconds since \<open>datetime.min\<close>, which is
  0001-01-01T00:00:00; Python represents every instant up to 9999-12-31T23:59:59.999999
  and nothing outside. A \<open>timedelta\<close> is a number of microseconds whose whole days are at
  most 999999999 in magnitude. Arithmetic that leaves either range raises
  \<open>OverflowError\<close>.
\<close>

type_synonym datetime = int
type_synonym timedelta = int

definition US_PER_HOUR :: int where
  "US_PER_HOUR = 3600000000"

definition US_PER_DAY :: int where
  "US_PER_DAY = 86400000000"

definition MAXORDINAL :: int where
  \<comment> \<open>\<open>date.max.toordinal()\<close>, the number of days from 0001-01-01 to 9999-12-31 inclusive\<close>
  "MAXORDINAL = 3652059"

definition datetime_max :: datetime where
  "datetime_max = MAXORDINAL * US_PER_DAY - 1"

subsection \<open>Requests, responses and exceptions\<close>

text \<open>
  The body of a response is either text that parses as JSON, kept as the parsed value,
  or text that does not. \<open>location\<close> is the \<open>Location\<close> header, if the response has one,
  as the absolute URL it stands for.
\<close>

datatype content = Json json | NotJson string

record response =
  status_code :: int
  location :: "string option"
  content :: content

datatype exn =
  OverflowError
| ValueError
| ConnectionError
| TooManyRedirects
| HTTPError response
| JSONDecodeError
| KeyError string
| TypeError

text \<open>
  A value of the \<open>params\<close> dictionary. \<open>IsoFormat d\<close> is the string \<open>d.isoformat()\<close>: the
  model keeps the instant that the text renders.
\<close>

datatype param = PStr string | PInt int | PNone | IsoFormat datetime

text \<open>
  A call of \<open>requests.get\<close> is recorded with its arguments, the URL and the \<open>params\<close>
  dictionary as the function built it. An HTTP request is what goes out on the network:
  its query parameters are the ones the library has encoded into the URL. The request
  that follows a redirect goes to the redirect's target, whose query is part of that URL.
\<close>

record get_call =
  call_url :: string
  call_params :: "(string \<times> param) list"

datatype http_method = GET

record request =
  meth :: http_method
  url :: string
  query :: "(string \<times> param) list"

record world =
  NEWS_API_KEY :: "string option"
  clock :: "nat \<Rightarrow> datetime"
  clock_reads :: nat
  upstream :: "request list \<Rightarrow> request \<Rightarrow> response option"
  get_calls :: "get_call list"
  http_requests :: "request list"
  stdout :: "json list"

text \<open>
  \<open>NEWS_API_KEY\<close> is the module global; \<open>clock w n\<close> is what the \<open>n\<close>-th read of the clock
  returns and \<open>clock_reads\<close> counts the reads so far; \<open>upstream w hist req\<close> is the answer
  of the network to the request \<open>req\<close> sent after the requests \<open>hist\<close>, a response or none at
  all; \<open>get_calls\<close> is the trace of the calls of \<open>requests.get\<close>; \<open>http_requests\<close> is the trace
  of the HTTP requests sent; \<open>stdout\<close> is the sequence of values printed.
\<close>

section \<open>The operations the notebook calls\<close>

definition os_getenv :: "(string \<rightharpoonup> string) \<Rightarrow> string \<Rightarrow> string option" where
  "os_getenv env k = env k"

definition load_module :: "(string \<rightharpoonup> string) \<Rightarrow> world \<Rightarrow> world" where
  \<comment> \<open>the second cell: \<open>NEWS_API_KEY = os.getenv('NEWS_API_KEY')\<close>, in the environment
      that \<open>load_dotenv()\<close> leaves\<close>
  "load_module env w = w\<lparr>NEWS_API_KEY := os_getenv env ''NEWS_API_KEY''\<rparr>"

definition datetime_now :: "world \<Rightarrow> datetime \<times> world" where
  "datetime_now w = (clock w (clock_reads w), w\<lparr>clock_reads := Suc (clock_reads w)\<rparr>)"

subsection \<open>\<open>timedelta(hours=...)\<close>\<close>

text \<open>
  An integer number of hours is multiplied out exactly. A float is split into its integer
  part and its fraction; the integer part is multiplied out exactly, the fraction is
  multiplied by the microseconds of an hour in double arithmetic, and what is left below
  one microsecond is rounded to the nearest microsecond, a half to the even one.
  An infinite float raises \<open>OverflowError\<close> and a NaN raises \<open>ValueError\<close>.
\<close>

fun bit_length :: "nat \<Rightarrow> nat" where
  "bit_length n = (if n = 0 then 0 else Suc (bit_length (n div 2)))"

declare bit_length.simps [simp del]

definition modf :: "int \<Rightarrow> int \<Rightarrow> int \<times> int \<times> int" where
  \<comment> \<open>\<open>m * 2 ^ e\<close> as its integer part, towards zero, and its fraction \<open>r * 2 ^ e'\<close>\<close>
  "modf m e =
     (if 0 \<le> e then (m * 2 ^ nat e, 0, 0)
      else (sgn m * (\<bar>m\<bar> div 2 ^ nat (- e)), sgn m * (\<bar>m\<bar> mod 2 ^ nat (- e)), e))"

definition round_half_even :: "int \<Rightarrow> nat \<Rightarrow> int" where
  \<comment> \<open>\<open>n / 2 ^ s\<close> to the nearest integer, a half to the even one; \<open>s\<close> is positive\<close>
  "round_half_even n s =
     (let q = n div 2 ^ s; r = n mod 2 ^ s; h = 2 ^ (s - 1)
      in if r < h then q else if h < r then q + 1 else if even q then q else q + 1)"

definition round_double :: "int \<Rightarrow> int \<Rightarrow> int \<times> int" where
  \<comment> \<open>\<open>n * 2 ^ e\<close> rounded to the 53 significant bits of a double\<close>
  "round_double n e =
     (let b = bit_length (nat \<bar>n\<bar>)
      in if b \<le> 53 then (n, e) else (round_half_even n (b - 53), e + int (b - 53)))"

definition float_hours_us :: "int \<Rightarrow> int \<Rightarrow> int" where
  "float_hours_us m e =
     (let (intpart, r, e1) = modf m e;
          x = intpart * US_PER_HOUR
      in if r = 0 then x
         else
           (let (n, e2) = round_double (US_PER_HOUR * r) e1;
                (intpart2, r2, e3) = modf n e2;
                y = x + intpart2
            in if r2 = 0 then y
               else if 2 * \<bar>r2\<bar> < 2 ^ nat (- e3) then y
               else if 2 ^ nat (- e3) < 2 * \<bar>r2\<bar> then y + sgn r2
               else if odd y then y + sgn r2 else y))"

definition microseconds_to_delta :: "int \<Rightarrow> exn + timedelta" where
  "microseconds_to_delta us =
     (let days = us div US_PER_DAY
      in if - 999999999 \<le> days \<and> days \<le> 999999999 then Inr us else Inl OverflowError)"

fun timedelta_hours :: "number \<Rightarrow> exn + timedelta" where
  "timedelta_hours (PyInt h) = microseconds_to_delta (h * US_PER_HOUR)"
| "timedelta_hours (PyFloat (Finite m e)) = microseconds_to_delta (float_hours_us m e)"
| "timedelta_hours (PyFloat PosInf) = Inl OverflowError"
| "timedelta_hours (PyFloat NegInf) = Inl OverflowError"
| "timedelta_hours (PyFloat NaN) = Inl ValueError"

definition datetime_sub :: "datetime \<Rightarrow> timedelta \<Rightarrow> exn + datetime" where
  "datetime_sub d td =
     (let r = d - td
      in if 0 \<le> r \<and> r \<le> datetime_max then Inr r else Inl OverflowError)"

subsection \<open>\<open>requests.get\<close>\<close>

text \<open>
  The library encodes the \<open>params\<close> dictionary into the URL and leaves out every key that
  is bound to \<open>None\<close>. It sends the request and, while the response is a redirect (one of
  the five redirect statuses, with a non-empty \<open>Location\<close>), sends a GET to the target
  and goes on with that response; after 30 redirects it raises \<open>TooManyRedirects\<close>. What
  \<open>requests.get\<close> returns is the last response. A request that gets no response raises the
  exception of a transport failure.
\<close>

definition encode_params :: "(string \<times> param) list \<Rightarrow> (string \<times> param) list" where
  "encode_params ps = filter (\<lambda>(k, v). v \<noteq> PNone) ps"

definition REDIRECT_STATI :: "int list" where
  "REDIRECT_STATI = [301, 302, 303, 307, 308]"

definition DEFAULT_REDIRECT_LIMIT :: nat where
  "DEFAULT_REDIRECT_LIMIT = 30"

definition get_redirect_target :: "response \<Rightarrow> string option" where
  "get_redirect_target r =
     (case location r of
        None \<Rightarrow> None
      | Some l \<Rightarrow> if status_code r \<in> set REDIRECT_STATI \<and> l \<noteq> [] then Some l else None)"

fun resolve_redirects :: "nat \<Rightarrow> response \<Rightarrow> world \<Rightarrow> (exn + response) \<times> world" where
  "resolve_redirects 0 resp w =
     (case get_redirect_target resp of
        None \<Rightarrow> (Inr resp, w)
      | Some l \<Rightarrow> (Inl TooManyRedirects, w))"
| "resolve_redirects (Suc n) resp w =
     (case get_redirect_target resp of
        None \<Rightarrow> (Inr resp, w)
      | Some l \<Rightarrow>
          (let req = \<lparr>meth = GET, url = l, query = []\<rparr>;
               w' = w\<lparr>http_requests := http_requests w @ [req]\<rparr>
           in (case upstream w (http_requests w) req of
                 None \<Rightarrow> (Inl ConnectionError, w')
               | Some r \<Rightarrow> resolve_redirects n r w')))"

definition requests_get :: "string \<Rightarrow> (string \<times> param) list \<Rightarrow> world \<Rightarrow> (exn + response) \<times> world" where
  "requests_get u ps w =
     (let req = \<lparr>meth = GET, url = u, query = encode_params ps\<rparr>;
          w' = w\<lparr>get_calls := get_calls w @ [\<lparr>call_url = u, call_params = ps\<rparr>],
                 http_requests := http_requests w @ [req]\<rparr>
      in (case upstream w (http_requests w) req of
            None \<Rightarrow> (Inl ConnectionError, w')
          | Some r \<Rightarrow> resolve_redirects DEFAULT_REDIRECT_LIMIT r w'))"

subsection \<open>The response\<close>

definition raise_for_status :: "response \<Rightarrow> exn + unit" where
  \<comment> \<open>\<open>requests\<close> raises for client errors (4xx) and server errors (5xx) only\<close>
  "raise_for_status r =
     (if 400 \<le> status_code r \<and> status_code r < 600 then Inl (HTTPError r) else Inr ())"

definition response_json :: "response \<Rightarrow> exn + json" where
  "response_json r = (case content r of Json j \<Rightarrow> Inr j | NotJson s \<Rightarrow> Inl JSONDecodeError)"

definition py_print :: "json \<Rightarrow> world \<Rightarrow> world" where
  "py_print j w = w\<lparr>stdout := stdout w @ [j]\<rparr>"

fun getitem :: "json \<Rightarrow> string \<Rightarrow> exn + json" where
  "getitem (JObj kvs) k = (case map_of kvs k of None \<Rightarrow> Inl (KeyError k) | Some v \<Rightarrow> Inr v)"
| "getitem j k = Inl TypeError"

section \<open>\<open>fetch_stock_news\<close>\<close>

text \<open>
  The body of the function, statement by statement. The ticker is a string, so the
  f-string \<open>f"{ticker}"\<close> is the ticker itself. \<open>resp.json()\<close> is evaluated twice, once
  for \<open>print\<close> and once for the lookup of \<open>"articles"\<close>.
\<close>

definition fetch_stock_news :: "string \<Rightarrow> number \<Rightarrow> int \<Rightarrow> int \<Rightarrow> world \<Rightarrow> (exn + json) \<times> world" where
  "fetch_stock_news ticker hours_back page page_size w =
     (let (now, w1) = datetime_now w in
      (case timedelta_hours hours_back of Inl e \<Rightarrow> (Inl e, w1) | Inr td \<Rightarrow>
      (case datetime_sub now td of Inl e \<Rightarrow> (Inl e, w1) | Inr frm \<Rightarrow>
      (let params =
            [(''q'', PStr ticker),
             (''from'', IsoFormat frm),
             (''to'', IsoFormat now),
             (''language'', PStr ''en''),
             (''sortBy'', PStr ''relevancy''),
             (''page'', PInt page),
             (''pageSize'', PInt page_size),
             (''apiKey'', (case NEWS_API_KEY w1 of None \<Rightarrow> PNone | Some k \<Rightarrow> PStr k))];
           (r, w2) = requests_get ''https://newsapi.org/v2/everything'' params w1 in
      (case r of Inl e \<Rightarrow> (Inl e, w2) | Inr resp \<Rightarrow>
      (case raise_for_status resp of Inl e \<Rightarrow> (Inl e, w2) | Inr u \<Rightarrow>
      (case response_json resp of Inl e \<Rightarrow> (Inl e, w2) | Inr j \<Rightarrow>
      (let w3 = py_print j w2 in
      (case response_json resp of Inl e \<Rightarrow> (Inl e, w3) | Inr j' \<Rightarrow>
      (case getitem j' ''articles'' of Inl e \<Rightarrow> (Inl e, w3) | Inr v \<Rightarrow> (Inr v, w3)))))))))))"

text \<open>
  The signature is \<open>fetch_stock_news(ticker, hours_back=1, page=1, page_size=50)\<close>: an
  argument the caller leaves out is bound to its default.
\<close>

definition call_fetch_stock_news ::
  "string \<Rightarrow> number option \<Rightarrow> int option \<Rightarrow> int option \<Rightarrow> world \<Rightarrow> (exn + json) \<times> world" where
  "call_fetch_stock_news ticker hours_back page page_size w =
     fetch_stock_news ticker
       (case hours_back of None \<Rightarrow> PyInt 1 | Some h \<Rightarrow> h)
       (case page of None \<Rightarrow> 1 | Some p \<Rightarrow> p)
       (case page_size of None \<Rightarrow> 50 | Some n \<Rightarrow> n) w"

section \<open>The captured run\<close>

text \<open>
  The fourth cell calls \<open>fetch_stock_news("TSLA", hours_back, page=1, page_size=5)\<close> with
  \<open>hours_back = 24\<close>; its first line of output is the body that the call printed. The
  five articles of that body follow, field by field.
\<close>

definition sample_article_1 :: json where
  "sample_article_1 =
     JObj
       [(''source'', JObj
         [(''id'', JNull),
          (''name'', JStr ''Quartz India'')]),
        (''author'', JStr ''Kevin Williams''),
        (''title'', JStr ''Tesla rival Xiaomi shows off its new SUV in Beijing''),
        (''description'', JStr (''Elon Musk'' @ [CHR 0xE2, CHR 0x80, CHR 0x99] @ ''s beleaguered Tesla (TSLA) is fending off yet another competitive EV entry in China.Read more...'')),
        (''url'', JStr ''https://qz.com/telsa-xiaomi-ev-suv-yu7-1851782952''),
        (''urlToImage'', JStr ''https://i.kinja-img.com/image/upload/c_fill,h_675,pg_1,q_80,w_1200/8c7c3f41dbe47e8693d07378a537891d.jpg''),
        (''publishedAt'', JStr ''2025-05-29T17:31:15Z''),
        (''content'', JStr (''In This Story'' @ [CHR 0x0D, CHR 0x0A] @ ''Elon Musks beleaguered Tesla (TSLA) is fending off yet another competitive EV entry in China.'' @ [CHR 0x0D, CHR 0x0A] @ '' Chinese electronics giant Xiaomi launched the YU7 SUV at 13 of its Beijing showrooms thi'' @ [CHR 0xE2, CHR 0x80, CHR 0xA6] @ '' [+1744 chars]''))]"

definition sample_article_2 :: json where
  "sample_article_2 =
     JObj
       [(''source'', JObj
         [(''id'', JNull),
          (''name'', JStr ''Yahoo Entertainment'')]),
        (''author'', JStr ''Ali Ahmed''),
        (''title'', JStr ''TD Cowen Maintains Buy Rating on Tesla (TSLA)''),
        (''description'', JStr (''On Tuesday, May 27, TD Cowen analysts maintained a '' @ [CHR 0xE2, CHR 0x80, CHR 0x9C] @ ''Buy'' @ [CHR 0xE2, CHR 0x80, CHR 0x9D] @ '' rating with a price target of $330 for Tesla, Inc. (NASDAQ:TSLA). The analysts highlighted the...'')),
        (''url'', JStr ''https://finance.yahoo.com/news/td-cowen-maintains-buy-rating-172221555.html''),
        (''urlToImage'', JStr ''https://s.yimg.com/ny/api/res/1.2/yW5JtOY4YQMatL7TyPD6iw--/YXBwaWQ9aGlnaGxhbmRlcjt3PTEyMDA7aD0xMjAw/https://media.zenfs.com/en/insidermonkey.com/d60200c9c3fe46563f2c514bb66853e7''),
        (''publishedAt'', JStr ''2025-05-29T17:22:21Z''),
        (''content'', JStr (''On Tuesday, May 27, TD Cowen analysts maintained a Buy rating with a price target of $330 for Tesla, Inc. (NASDAQ:TSLA). The analysts highlighted the companys autonomous vehicle (AV) features, which '' @ [CHR 0xE2, CHR 0x80, CHR 0xA6] @ '' [+1276 chars]''))]"

definition sample_article_3 :: json where
  "sample_article_3 =
     JObj
       [(''source'', JObj
         [(''id'', JNull),
          (''name'', JStr ''Biztoc.com'')]),
        (''author'', JStr ''finance.yahoo.com''),
        (''title'', JStr ''TD Cowen Maintains Buy Rating on Tesla (TSLA)''),
        (''description'', JStr (''In This Article:'' @ [CHR 0x0A] @ ''On Tuesday, May 27, TD Cowen analysts maintained a '' @ [CHR 0xE2, CHR 0x80, CHR 0x9C] @ ''Buy'' @ [CHR 0xE2, CHR 0x80, CHR 0x9D] @ '' rating with a price target of $330 for Tesla, Inc. (NASDAQ:TSLA). The analysts highlighted the company'' @ [CHR 0xE2, CHR 0x80, CHR 0x99] @ ''s autonomous vehicle (AV) features, which coincide with TD Cowen'' @ [CHR 0xE2, CHR 0x80, CHR 0x99] @ ''s thesis regardin'' @ [CHR 0xE2, CHR 0x80, CHR 0xA6])),
        (''url'', JStr ''https://biztoc.com/x/54c357edbe3ddf04''),
        (''urlToImage'', JStr ''https://biztoc.com/cdn/54c357edbe3ddf04_s.webp''),
        (''publishedAt'', JStr ''2025-05-29T17:31:15Z''),
        (''content'', JStr (''In This Article:On Tuesday, May 27, TD Cowen analysts maintained a Buy rating with a price target of $330 for Tesla, Inc. (NASDAQ:TSLA). The analysts highlighted the companys autonomous vehicle (AV) '' @ [CHR 0xE2, CHR 0x80, CHR 0xA6] @ '' [+140 chars]''))]"

definition sample_article_4 :: json where
  "sample_article_4 =
     JObj
       [(''source'', JObj
         [(''id'', JNull),
          (''name'', JStr ''Biztoc.com'')]),
        (''author'', JStr ''teslarati.com''),
        (''title'', JStr (''Tesla analyst'' @ [CHR 0xE2, CHR 0x80, CHR 0x99] @ ''s firm has sold its entire TSLA position: Here'' @ [CHR 0xE2, CHR 0x80, CHR 0x99] @ ''s why'')),
        (''description'', JStr (''Tesla analyst Gary Black of The Future Fund revealed today that his firm has sold its entire $TSLA holding, marking the first time since 2021 that it has not had a position in the company'' @ [CHR 0xE2, CHR 0x80, CHR 0x99] @ ''s stock.'' @ [CHR 0x0A] @ ''Black has been a skeptic of the company and relatively pessimi'' @ [CHR 0xE2, CHR 0x80, CHR 0xA6])),
        (''url'', JStr ''https://biztoc.com/x/a6a6563384a07189''),
        (''urlToImage'', JStr ''https://biztoc.com/cdn/a6a6563384a07189_s.webp''),
        (''publishedAt'', JStr ''2025-05-29T15:38:56Z''),
        (''content'', JStr (''Tesla analyst Gary Black of The Future Fund revealed today that his firm has sold its entire $TSLA holding, marking the first time since 2021 that it has not had a position in the companys stock.Blac'' @ [CHR 0xE2, CHR 0x80, CHR 0xA6] @ '' [+150 chars]''))]"

definition sample_article_5 :: json where
  "sample_article_5 =
     JObj
       [(''source'', JObj
         [(''id'', JNull),
          (''name'', JStr ''Biztoc.com'')]),
        (''author'', JStr ''investopedia.com''),
        (''title'', JStr ''5 Things to Know Before the Stock Market Opens''),
        (''description'', JStr (''U.S. stock futures are pointing sharply higher after a federal court struck down President Donald Trump'' @ [CHR 0x27] @ ''s '' @ [CHR 0x22] @ ''reciprocal'' @ [CHR 0x22] @ '' tariffs; Nvidia (NVDA) shares are jumping in premarket trading after the chipmaker posted record revenue that tops analysts'' @ [CHR 0x27] @ '' estimates; Tesl'' @ [CHR 0xE2, CHR 0x80, CHR 0xA6])),
        (''url'', JStr ''https://biztoc.com/x/556475519d87d05d''),
        (''urlToImage'', JStr ''https://biztoc.com/cdn/556475519d87d05d_s.webp''),
        (''publishedAt'', JStr ''2025-05-29T19:00:05Z''),
        (''content'', JStr (''U.S. stock futures are pointing sharply higher after a federal court struck down President Donald Trump'' @ [CHR 0x27] @ ''s '' @ [CHR 0x22] @ ''reciprocal'' @ [CHR 0x22] @ '' tariffs; Nvidia (NVDA) shares are jumping in premarket trading after the chipmak'' @ [CHR 0xE2, CHR 0x80, CHR 0xA6] @ '' [+156 chars]''))]"

definition sample_body :: json where
  "sample_body =
     JObj
       [(''status'', JStr ''ok''),
        (''totalResults'', JInt 5),
        (''articles'', JArr [sample_article_1, sample_article_2, sample_article_3, sample_article_4, sample_article_5])]"

definition sample_response :: response where
  "sample_response = \<lparr>status_code = 200, location = None, content = Json sample_body\<rparr>"

section \<open>Stubbed worlds\<close>

text \<open>
  Worlds for running the function on concrete inputs: the module has been loaded in the
  process environment \<open>env\<close>, the clock shows \<open>now\<close> at its first read and one microsecond
  more at each later read, nothing has been sent or printed yet. In \<open>stub_world\<close> the
  upstream answers every request with \<open>reply\<close>; in \<open>scripted_world\<close> it answers the first
  request with the first of \<open>replies\<close>, the second with the second and so on, and gives
  no answer once the list is used up.
\<close>

definition stub_world :: "(string \<times> string) list \<Rightarrow> datetime \<Rightarrow> response option \<Rightarrow> world" where
  "stub_world env now reply =
     load_module (map_of env)
       \<lparr>NEWS_API_KEY = None, clock = (\<lambda>n. now + int n), clock_reads = 0,
        upstream = (\<lambda>hist req. reply), get_calls = [], http_requests = [], stdout = []\<rparr>"

definition scripted_world :: "(string \<times> string) list \<Rightarrow> datetime \<Rightarrow> response list \<Rightarrow> world" where
  "scripted_world env now replies =
     load_module (map_of env)
       \<lparr>NEWS_API_KEY = None, clock = (\<lambda>n. now + int n), clock_reads = 0,
        upstream = (\<lambda>hist req. if length hist < length replies
                                 then Some (replies ! length hist) else None),
        get_calls = [], http_requests = [], stdout = []\<rparr>"

definition may_29_2025_8pm :: datetime where
  \<comment> \<open>2025-05-29T20:00:00\<close>
  "may_29_2025_8pm = 63884145600000000"

section \<open>What a call does, case by case\<close>

text \<open>
  \<open>lookback h w\<close> is the start of the window as the call computes it at the next clock
  read of \<open>w\<close>, or the exception that \<open>timedelta(hours=h)\<close> or the subtraction raises;
  \<open>window_ok h w\<close> says that no exception is raised there. \<open>positive h\<close> is the comparison
  \<open>h > 0\<close>, and \<open>hours_in_us h\<close> is the exact number of microseconds in \<open>h\<close> hours, for a
  finite \<open>h\<close>.
\<close>

definition lookback :: "number \<Rightarrow> world \<Rightarrow> exn + datetime" where
  "lookback h w =
     (case timedelta_hours h of
        Inl e \<Rightarrow> Inl e
      | Inr td \<Rightarrow> datetime_sub (clock w (clock_reads w)) td)"

definition window_ok :: "number \<Rightarrow> world \<Rightarrow> bool" where
  "window_ok h w = (case lookback h w of Inl e \<Rightarrow> False | Inr frm \<Rightarrow> True)"



text \<open>
  \<open>built_params\<close> is the dictionary the call builds and \<open>first_request\<close> the request that
  \<open>requests.get\<close> makes of it. \<open>redirect_chain up hist req rest\<close> says that the requests
  \<open>rest\<close> are the ones that follow redirects after \<open>req\<close>: each is a GET to the target of
  the redirect that answered the request before it. \<open>after_reply\<close> is what the call does
  with the response that \<open>requests.get\<close> returns: the result, and what it prints.
\<close>

definition built_params ::
  "string \<Rightarrow> datetime \<Rightarrow> datetime \<Rightarrow> int \<Rightarrow> int \<Rightarrow> string option \<Rightarrow> (string \<times> param) list" where
  "built_params ticker frm now page page_size key =
     [(''q'', PStr ticker),
      (''from'', IsoFormat frm),
      (''to'', IsoFormat now),
      (''language'', PStr ''en''),
      (''sortBy'', PStr ''relevancy''),
      (''page'', PInt page),
      (''pageSize'', PInt page_size),
      (''apiKey'', (case key of None \<Rightarrow> PNone | Some k \<Rightarrow> PStr k))]"

definition first_request ::
  "string \<Rightarrow> datetime \<Rightarrow> datetime \<Rightarrow> int \<Rightarrow> int \<Rightarrow> string option \<Rightarrow> request" where
  "first_request ticker frm now page page_size key =
     \<lparr>meth = GET, url = ''https://newsapi.org/v2/everything'',
      query =
        [(''q'', PStr ticker),
         (''from'', IsoFormat frm),
         (''to'', IsoFormat now),
         (''language'', PStr ''en''),
         (''sortBy'', PStr ''relevancy''),
         (''page'', PInt page),
         (''pageSize'', PInt page_size)] @
        (case key of None \<Rightarrow> [] | Some k \<Rightarrow> [(''apiKey'', PStr k)])\<rparr>"

fun redirect_chain ::
  "(request list \<Rightarrow> request \<Rightarrow> response option) \<Rightarrow> request list \<Rightarrow> request \<Rightarrow> request list \<Rightarrow> bool" where
  "redirect_chain up hist req [] = True"
| "redirect_chain up hist req (nxt # rest) =
     (case up hist req of
        None \<Rightarrow> False
      | Some resp \<Rightarrow>
          (case get_redirect_target resp of
             None \<Rightarrow> False
           | Some l \<Rightarrow> nxt = \<lparr>meth = GET, url = l, query = []\<rparr> \<and>
                       redirect_chain up (hist @ [req]) nxt rest))"

definition after_reply :: "response \<Rightarrow> (exn + json) \<times> json list" where
  "after_reply resp =
     (if 400 \<le> status_code resp \<and> status_code resp < 600 then (Inl (HTTPError resp), [])
      else (case content resp of
              NotJson s \<Rightarrow> (Inl JSONDecodeError, [])
            | Json j \<Rightarrow> (getitem j ''articles'', [j])))"

text \<open>
  \<open>final_outcome\<close> is what \<open>requests.get\<close> does with the answer to the last request it
  sent: it raises the transport failure when there is none, returns the response when it
  is not a redirect, and has otherwise used up its redirects. \<open>finish\<close> is what the call
  does from there: the result, and what it prints.
\<close>

definition final_outcome :: "response option \<Rightarrow> exn + response" where
  "final_outcome reply =
     (case reply of
        None \<Rightarrow> Inl ConnectionError
      | Some fin \<Rightarrow>
          (case get_redirect_target fin of
             None \<Rightarrow> Inr fin
           | Some l \<Rightarrow> Inl TooManyRedirects))"

definition finish :: "response option \<Rightarrow> (exn + json) \<times> json list" where
  "finish reply =
     (case final_outcome reply of
        Inl e \<Rightarrow> (Inl e, [])
      | Inr resp \<Rightarrow> after_reply resp)"

section \<open>Durations\<close>







section \<open>Redirects\<close>

lemma butlast_last_Cons:
  "butlast [x] = []" "last [x] = x"
  "butlast (x # y # ys) = x # butlast (y # ys)" "last (x # y # ys) = last (y # ys)"
  by simp_all

lemma resolve_redirects_run:
  assumes "http_requests w = hist @ [req]" and "upstream w hist req = Some resp"
  shows "\<exists>rest.
     resolve_redirects k resp w =
       (final_outcome (upstream w (hist @ butlast (req # rest)) (last (req # rest))),
        w\<lparr>http_requests := http_requests w @ rest\<rparr>) \<and>
     length rest \<le> k \<and>
     redirect_chain (upstream w) hist req rest \<and>
     (final_outcome (upstream w (hist @ butlast (req # rest)) (last (req # rest))) =
        Inl TooManyRedirects \<longrightarrow> length rest = k)"
  using assms
proof (induction k arbitrary: w hist req resp)
  case 0
  then show ?case
    by (intro exI [of _ "[]"]) (simp add: final_outcome_def split: option.splits)
next
  case (Suc k)
  show ?case
  proof (cases "get_redirect_target resp")
    case None
    with Suc.prems show ?thesis
      by (intro exI [of _ "[]"]) (simp add: final_outcome_def)
  next
    case (Some l)
    let ?nxt = "\<lparr>meth = GET, url = l, query = []\<rparr>"
    let ?w' = "w\<lparr>http_requests := http_requests w @ [?nxt]\<rparr>"
    show ?thesis
    proof (cases "upstream w (http_requests w) ?nxt")
      case None
      with Some Suc.prems show ?thesis
        by (intro exI [of _ "[?nxt]"]) (simp add: final_outcome_def)
    next
      case reply: (Some r)
      have "http_requests ?w' = (hist @ [req]) @ [?nxt]"
        using Suc.prems(1) by simp
      moreover have "upstream ?w' (hist @ [req]) ?nxt = Some r"
        using reply Suc.prems(1) by simp
      ultimately obtain rest where run:
        "resolve_redirects k r ?w' =
           (final_outcome (upstream ?w' ((hist @ [req]) @ butlast (?nxt # rest)) (last (?nxt # rest))),
            ?w'\<lparr>http_requests := http_requests ?w' @ rest\<rparr>)"
        and len: "length rest \<le> k"
        and chain: "redirect_chain (upstream ?w') (hist @ [req]) ?nxt rest"
        and many: "final_outcome (upstream ?w' ((hist @ [req]) @ butlast (?nxt # rest)) (last (?nxt # rest))) =
            Inl TooManyRedirects \<longrightarrow> length rest = k"
        using Suc.IH [of ?w' "hist @ [req]" ?nxt r] by blast
      show ?thesis
        using Some reply run len chain many Suc.prems
        by (intro exI [of _ "?nxt # rest"])
          (simp add: butlast_last_Cons Let_def del: butlast.simps last.simps)
    qed
  qed
qed

lemma requests_get_run:
  "\<exists>rest.
     requests_get u ps w =
       (final_outcome (upstream w (http_requests w @
            butlast (\<lparr>meth = GET, url = u, query = encode_params ps\<rparr> # rest))
          (last (\<lparr>meth = GET, url = u, query = encode_params ps\<rparr> # rest))),
        w\<lparr>get_calls := get_calls w @ [\<lparr>call_url = u, call_params = ps\<rparr>],
          http_requests :=
            http_requests w @ \<lparr>meth = GET, url = u, query = encode_params ps\<rparr> # rest\<rparr>) \<and>
     length rest \<le> 30 \<and>
     redirect_chain (upstream w) (http_requests w)
       \<lparr>meth = GET, url = u, query = encode_params ps\<rparr> rest \<and>
     (final_outcome (upstream w (http_requests w @
            butlast (\<lparr>meth = GET, url = u, query = encode_params ps\<rparr> # rest))
          (last (\<lparr>meth = GET, url = u, query = encode_params ps\<rparr> # rest))) =
        Inl TooManyRedirects \<longrightarrow> length rest = 30)"
proof -
  let ?req = "\<lparr>meth = GET, url = u, query = encode_params ps\<rparr>"
  let ?w' = "w\<lparr>get_calls := get_calls w @ [\<lparr>call_url = u, call_params = ps\<rparr>],
                http_requests := http_requests w @ [?req]\<rparr>"
  show ?thesis
  proof (cases "upstream w (http_requests w) ?req")
    case None
    then show ?thesis
      by (intro exI [of _ "[]"]) (simp add: requests_get_def final_outcome_def)
  next
    case (Some r)
    have "http_requests ?w' = http_requests w @ [?req]" by simp
    moreover have "upstream ?w' (http_requests w) ?req = Some r"
      using Some by simp
    ultimately obtain rest where
      "resolve_redirects 30 r ?w' =
         (final_outcome (upstream ?w' (http_requests w @ butlast (?req # rest)) (last (?req # rest))),
          ?w'\<lparr>http_requests := http_requests ?w' @ rest\<rparr>)"
      and "length rest \<le> 30"
      and "redirect_chain (upstream ?w') (http_requests w) ?req rest"
      and "final_outcome (upstream ?w' (http_requests w @ butlast (?req # rest)) (last (?req # rest))) =
          Inl TooManyRedirects \<longrightarrow> length rest = 30"
      using resolve_redirects_run [of ?w' "http_requests w" ?req r 30] by blast
    with Some show ?thesis
      by (intro exI [of _ rest])
        (simp add: requests_get_def DEFAULT_REDIRECT_LIMIT_def Let_def
          del: butlast.simps last.simps)
  qed
qed

section \<open>Runs of \<open>fetch_stock_news\<close>\<close>

lemma encode_built_params:
  "\<lparr>meth = GET, url = ''https://newsapi.org/v2/everything'',
     query = encode_params (built_params t frm now p ps key)\<rparr> =
   first_request t frm now p ps key"
  by (cases key) (simp_all add: encode_params_def built_params_def first_request_def)

lemma fetch_overflow:
  "lookback h w = Inl e \<Longrightarrow>
   fetch_stock_news t h p ps w = (Inl e, w\<lparr>clock_reads := Suc (clock_reads w)\<rparr>)"
  by (auto simp: lookback_def fetch_stock_news_def datetime_now_def split: sum.splits)

lemma fetch_unfold:
  assumes "lookback h w = Inr frm"
  shows "fetch_stock_news t h p ps w =
     (case requests_get ''https://newsapi.org/v2/everything''
             (built_params t frm (clock w (clock_reads w)) p ps (NEWS_API_KEY w))
             (w\<lparr>clock_reads := Suc (clock_reads w)\<rparr>) of
        (Inl e, w2) \<Rightarrow> (Inl e, w2)
      | (Inr resp, w2) \<Rightarrow>
          (fst (after_reply resp), w2\<lparr>stdout := stdout w2 @ snd (after_reply resp)\<rparr>))"
proof -
  from assms obtain td where dur: "timedelta_hours h = Inr td"
    and start: "datetime_sub (clock w (clock_reads w)) td = Inr frm"
    by (auto simp: lookback_def split: sum.splits)
  show ?thesis
    unfolding fetch_stock_news_def datetime_now_def
    by (auto simp: dur start built_params_def Let_def raise_for_status_def response_json_def
        after_reply_def py_print_def split: prod.splits sum.splits content.splits)
qed

lemma fetch_run:
  assumes "lookback h w = Inr frm"
  shows "\<exists>rest.
     fetch_stock_news t h p ps w =
       (fst (finish (upstream w
          (http_requests w @
             butlast (first_request t frm (clock w (clock_reads w)) p ps (NEWS_API_KEY w) # rest))
          (last (first_request t frm (clock w (clock_reads w)) p ps (NEWS_API_KEY w) # rest)))),
        w\<lparr>clock_reads := Suc (clock_reads w),
          get_calls := get_calls w @
            [\<lparr>call_url = ''https://newsapi.org/v2/everything'',
              call_params = built_params t frm (clock w (clock_reads w)) p ps (NEWS_API_KEY w)\<rparr>],
          http_requests := http_requests w @
            first_request t frm (clock w (clock_reads w)) p ps (NEWS_API_KEY w) # rest,
          stdout := stdout w @ snd (finish (upstream w
            (http_requests w @
               butlast (first_request t frm (clock w (clock_reads w)) p ps (NEWS_API_KEY w) # rest))
            (last (first_request t frm (clock w (clock_reads w)) p ps (NEWS_API_KEY w) # rest))))\<rparr>) \<and>
     length rest \<le> 30 \<and>
     redirect_chain (upstream w) (http_requests w)
       (first_request t frm (clock w (clock_reads w)) p ps (NEWS_API_KEY w)) rest \<and>
     (final_outcome (upstream w
          (http_requests w @
             butlast (first_request t frm (clock w (clock_reads w)) p ps (NEWS_API_KEY w) # rest))
          (last (first_request t frm (clock w (clock_reads w)) p ps (NEWS_API_KEY w) # rest))) =
        Inl TooManyRedirects \<longrightarrow> length rest = 30)"
proof -
  let ?now = "clock w (clock_reads w)"
  let ?ps = "built_params t frm ?now p ps (NEWS_API_KEY w)"
  let ?w1 = "w\<lparr>clock_reads := Suc (clock_reads w)\<rparr>"
  let ?first = "first_request t frm ?now p ps (NEWS_API_KEY w)"
  from requests_get_run [of "''https://newsapi.org/v2/everything''" ?ps ?w1]
  obtain rest where get:
    "requests_get ''https://newsapi.org/v2/everything'' ?ps ?w1 =
       (final_outcome (upstream ?w1 (http_requests ?w1 @ butlast (?first # rest)) (last (?first # rest))),
        ?w1\<lparr>get_calls := get_calls ?w1 @
               [\<lparr>call_url = ''https://newsapi.org/v2/everything'', call_params = ?ps\<rparr>],
             http_requests := http_requests ?w1 @ ?first # rest\<rparr>)"
    and len: "length rest \<le> 30"
    and chain: "redirect_chain (upstream ?w1) (http_requests ?w1) ?first rest"
    and many: "final_outcome (upstream ?w1 (http_requests ?w1 @ butlast (?first # rest))
        (last (?first # rest))) = Inl TooManyRedirects \<longrightarrow> length rest = 30"
    unfolding encode_built_params by blast
  show ?thesis
    using len chain many
    by (intro exI [of _ rest])
      (simp add: fetch_unfold [OF assms] get finish_def
        del: butlast.simps last.simps split: sum.splits)
qed

lemma redirect_chain_split:
  assumes "redirect_chain up hist req rest"
    and "req # rest = pre @ x # y # post"
  shows "\<exists>resp l. up (hist @ pre) x = Some resp \<and> get_redirect_target resp = Some l \<and>
           y = \<lparr>meth = GET, url = l, query = []\<rparr>"
  using assms
proof (induction rest arbitrary: hist req pre)
  case Nil
  then show ?case by (cases pre) simp_all
next
  case (Cons nxt rest)
  from Cons.prems(1) obtain resp l where reply: "up hist req = Some resp"
    and target: "get_redirect_target resp = Some l"
    and nxt: "nxt = \<lparr>meth = GET, url = l, query = []\<rparr>"
    and chain: "redirect_chain up (hist @ [req]) nxt rest"
    by (auto split: option.splits)
  show ?case
  proof (cases pre)
    case Nil
    with Cons.prems(2) reply target nxt show ?thesis by simp
  next
    case (Cons a pre')
    with Cons.prems(2) have "nxt # rest = pre' @ x # y # post" and "a = req" by simp_all
    with Cons.IH [OF chain this(1)] Cons show ?thesis by simp
  qed
qed

lemma fetch_nothing_sent:
  assumes "fetch_stock_news t h p ps w = (r, w')"
    and "lookback h w = Inl e"
  shows "r = Inl e" and "http_requests w' = http_requests w" and "get_calls w' = get_calls w"
    and "stdout w' = stdout w" and "clock_reads w' = Suc (clock_reads w)"
  using assms by (auto simp: fetch_overflow)

lemma fetch_last:
  assumes run: "fetch_stock_news t h p ps w = (r, w')"
    and trace: "http_requests w' = http_requests w @ reqs @ [req]"
  shows "r = fst (finish (upstream w (http_requests w @ reqs) req))"
    and "stdout w' = stdout w @ snd (finish (upstream w (http_requests w @ reqs) req))"
    and "final_outcome (upstream w (http_requests w @ reqs) req) = Inl TooManyRedirects \<longrightarrow>
           length reqs = 30"
proof -
  obtain frm where frm: "lookback h w = Inr frm"
    using fetch_nothing_sent(2) [OF run] trace by (cases "lookback h w") auto
  let ?first = "first_request t frm (clock w (clock_reads w)) p ps (NEWS_API_KEY w)"
  from fetch_run [OF frm, of t p ps] run obtain rest where
    r: "r = fst (finish (upstream w (http_requests w @ butlast (?first # rest)) (last (?first # rest))))"
    and w': "http_requests w' = http_requests w @ ?first # rest"
      "stdout w' = stdout w @ snd (finish (upstream w (http_requests w @ butlast (?first # rest))
          (last (?first # rest))))"
    and many: "final_outcome (upstream w (http_requests w @ butlast (?first # rest))
        (last (?first # rest))) = Inl TooManyRedirects \<longrightarrow> length rest = 30"
    by auto
  from w'(1) trace have eq: "?first # rest = reqs @ [req]" by simp
  have len: "length rest = length reqs"
    using arg_cong [OF eq, of length] by simp
  show "r = fst (finish (upstream w (http_requests w @ reqs) req))"
    using r unfolding eq by simp
  show "stdout w' = stdout w @ snd (finish (upstream w (http_requests w @ reqs) req))"
    using w'(2) unfolding eq by simp
  show "final_outcome (upstream w (http_requests w @ reqs) req) = Inl TooManyRedirects \<longrightarrow>
      length reqs = 30"
    using many len unfolding eq by simp
qed

lemma fetch_middle:
  assumes run: "fetch_stock_news t h p ps w = (r, w')"
    and trace: "http_requests w' = http_requests w @ reqs @ req # nxt # post"
  shows "\<exists>resp l. upstream w (http_requests w @ reqs) req = Some resp \<and>
           get_redirect_target resp = Some l \<and> nxt = \<lparr>meth = GET, url = l, query = []\<rparr>"
proof -
  obtain frm where frm: "lookback h w = Inr frm"
    using fetch_nothing_sent(2) [OF run] trace by (cases "lookback h w") auto
  let ?first = "first_request t frm (clock w (clock_reads w)) p ps (NEWS_API_KEY w)"
  from fetch_run [OF frm, of t p ps] run obtain rest where
    w': "http_requests w' = http_requests w @ ?first # rest"
    and chain: "redirect_chain (upstream w) (http_requests w) ?first rest"
    by auto
  from w' trace have "?first # rest = reqs @ req # nxt # post" by simp
  from redirect_chain_split [OF chain this] show ?thesis .
qed

lemma not_redirect:
  "status_code resp \<notin> set REDIRECT_STATI \<Longrightarrow> get_redirect_target resp = None"
  by (simp add: get_redirect_target_def split: option.splits)



lemma error_not_redirect:
  "400 \<le> status_code resp \<Longrightarrow> status_code resp < 600 \<Longrightarrow> get_redirect_target resp = None"
  by (rule not_redirect) (auto simp: REDIRECT_STATI_def)

lemma success_not_redirect:
  "200 \<le> status_code resp \<Longrightarrow> status_code resp < 300 \<Longrightarrow> get_redirect_target resp = None"
  by (rule not_redirect) (auto simp: REDIRECT_STATI_def)

lemma finish_reply:
  "get_redirect_target resp = None \<Longrightarrow> finish (Some resp) = after_reply resp"
  by (simp add: finish_def final_outcome_def)





lemma fetch_only_request:
  assumes run: "fetch_stock_news t h p ps w = (r, w')"
    and trace: "http_requests w' = http_requests w @ req # rest"
    and final: "\<forall>resp. upstream w (http_requests w) req = Some resp \<longrightarrow>
        get_redirect_target resp = None"
  shows "rest = []"
proof (cases rest)
  case Nil
  then show ?thesis .
next
  case (Cons nxt post)
  with trace have "http_requests w' = http_requests w @ [] @ req # nxt # post" by simp
  from fetch_middle [OF run this] final show ?thesis by auto
qed

lemma fetch_single:
  assumes frm: "lookback h w = Inr frm"
    and reply: "upstream w (http_requests w)
        (first_request t frm (clock w (clock_reads w)) p ps (NEWS_API_KEY w)) = reply"
    and final: "\<forall>resp. reply = Some resp \<longrightarrow> get_redirect_target resp = None"
  shows "fetch_stock_news t h p ps w =
     (fst (finish reply),
      w\<lparr>clock_reads := Suc (clock_reads w),
        get_calls := get_calls w @
          [\<lparr>call_url = ''https://newsapi.org/v2/everything'',
            call_params = built_params t frm (clock w (clock_reads w)) p ps (NEWS_API_KEY w)\<rparr>],
        http_requests := http_requests w @
          [first_request t frm (clock w (clock_reads w)) p ps (NEWS_API_KEY w)],
        stdout := stdout w @ snd (finish reply)\<rparr>)"
proof -
  let ?first = "first_request t frm (clock w (clock_reads w)) p ps (NEWS_API_KEY w)"
  from fetch_run [OF frm, of t p ps] obtain rest where
    run: "fetch_stock_news t h p ps w =
       (fst (finish (upstream w (http_requests w @ butlast (?first # rest)) (last (?first # rest)))),
        w\<lparr>clock_reads := Suc (clock_reads w),
          get_calls := get_calls w @
            [\<lparr>call_url = ''https://newsapi.org/v2/everything'',
              call_params = built_params t frm (clock w (clock_reads w)) p ps (NEWS_API_KEY w)\<rparr>],
          http_requests := http_requests w @ ?first # rest,
          stdout := stdout w @ snd (finish (upstream w
            (http_requests w @ butlast (?first # rest)) (last (?first # rest))))\<rparr>)"
    by blast
  have "rest = []"
    by (rule fetch_only_request [OF run]) (use reply final in auto)
  with run reply show ?thesis by simp
qed

lemma resolve_redirects_final:
  "get_redirect_target r = None \<Longrightarrow> resolve_redirects k r w = (Inr r, w)"
  by (cases k) simp_all

lemma fetch_one_redirect:
  assumes frm: "lookback h w = Inr frm"
    and reply1: "upstream w (http_requests w)
        (first_request t frm (clock w (clock_reads w)) p ps (NEWS_API_KEY w)) = Some r1"
    and target: "get_redirect_target r1 = Some l"
    and reply2: "upstream w (http_requests w @
          [first_request t frm (clock w (clock_reads w)) p ps (NEWS_API_KEY w)])
        \<lparr>meth = GET, url = l, query = []\<rparr> = Some r2"
    and final: "get_redirect_target r2 = None"
  shows "fetch_stock_news t h p ps w =
     (fst (after_reply r2),
      w\<lparr>clock_reads := Suc (clock_reads w),
        get_calls := get_calls w @
          [\<lparr>call_url = ''https://newsapi.org/v2/everything'',
            call_params = built_params t frm (clock w (clock_reads w)) p ps (NEWS_API_KEY w)\<rparr>],
        http_requests := http_requests w @
          [first_request t frm (clock w (clock_reads w)) p ps (NEWS_API_KEY w),
           \<lparr>meth = GET, url = l, query = []\<rparr>],
        stdout := stdout w @ snd (after_reply r2)\<rparr>)"
  using reply1 target reply2 final
  by (simp add: fetch_unfold [OF frm] requests_get_def encode_built_params
      DEFAULT_REDIRECT_LIMIT_def numeral_eq_Suc resolve_redirects_final)

lemma stub_world_simps [simp]:
  "NEWS_API_KEY (stub_world env now reply) = map_of env ''NEWS_API_KEY''"
  "clock (stub_world env now reply) n = now + int n"
  "clock_reads (stub_world env now reply) = 0"
  "upstream (stub_world env now reply) hist req = reply"
  "get_calls (stub_world env now reply) = []"
  "http_requests (stub_world env now reply) = []"
  "stdout (stub_world env now reply) = []"
  by (simp_all add: stub_world_def load_module_def os_getenv_def)

lemma scripted_world_simps [simp]:
  "NEWS_API_KEY (scripted_world env now replies) = map_of env ''NEWS_API_KEY''"
  "clock (scripted_world env now replies) n = now + int n"
  "clock_reads (scripted_world env now replies) = 0"
  "upstream (scripted_world env now replies) hist req =
     (if length hist < length replies then Some (replies ! length hist) else None)"
  "get_calls (scripted_world env now replies) = []"
  "http_requests (scripted_world env now replies) = []"
  "stdout (scripted_world env now replies) = []"
  by (simp_all add: scripted_world_def load_module_def os_getenv_def)

lemma lookback_int:
  "lookback (PyInt h) w =
     (if - 999999999 \<le> (h * US_PER_HOUR) div US_PER_DAY \<and>
         (h * US_PER_HOUR) div US_PER_DAY \<le> 999999999 \<and>
         0 \<le> clock w (clock_reads w) - h * US_PER_HOUR \<and>
         clock w (clock_reads w) - h * US_PER_HOUR \<le> datetime_max
      then Inr (clock w (clock_reads w) - h * US_PER_HOUR) else Inl OverflowError)"
  by (simp add: lookback_def microseconds_to_delta_def datetime_sub_def Let_def)

lemma window_ok_int:
  "window_ok (PyInt h) w \<longleftrightarrow>
     - 999999999 \<le> (h * US_PER_HOUR) div US_PER_DAY \<and>
     (h * US_PER_HOUR) div US_PER_DAY \<le> 999999999 \<and>
     0 \<le> clock w (clock_reads w) - h * US_PER_HOUR \<and>
     clock w (clock_reads w) - h * US_PER_HOUR \<le> datetime_max"
  by (simp add: window_ok_def lookback_int)

lemma window_ok_lookback: "window_ok h w \<longleftrightarrow> (\<exists>frm. lookback h w = Inr frm)"
  by (cases "lookback h w") (simp_all add: window_ok_def)

lemma lookback_load_module [simp]: "lookback h (load_module env w) = lookback h w"
  by (simp add: lookback_def load_module_def split: sum.splits)

lemma window_ok_load_module [simp]: "window_ok h (load_module env w) = window_ok h w"
  by (simp add: window_ok_def)

lemma lookback_may_29_24:
  "clock w (clock_reads w) = may_29_2025_8pm \<Longrightarrow>
   lookback (PyInt 24) w = Inr (may_29_2025_8pm - 24 * US_PER_HOUR)"
  by (simp add: lookback_int may_29_2025_8pm_def US_PER_HOUR_def US_PER_DAY_def
      datetime_max_def MAXORDINAL_def)

lemma lookback_may_29_1:
  "clock w (clock_reads w) = may_29_2025_8pm \<Longrightarrow>
   lookback (PyInt 1) w = Inr (may_29_2025_8pm - 1 * US_PER_HOUR)"
  by (simp add: lookback_int may_29_2025_8pm_def US_PER_HOUR_def US_PER_DAY_def
      datetime_max_def MAXORDINAL_def)

lemma lookback_may_29_too_far:
  "clock w (clock_reads w) = may_29_2025_8pm \<Longrightarrow> 20000000 \<le> h \<Longrightarrow>
   lookback (PyInt h) w = Inl OverflowError"
  by (simp add: lookback_int may_29_2025_8pm_def US_PER_HOUR_def)



lemma fetch_http_error_step:
  assumes run: "fetch_stock_news t h p ps w = (r, w')"
    and trace: "http_requests w' = http_requests w @ reqs @ req # rest"
    and reply: "upstream w (http_requests w @ reqs) req = Some resp"
    and err: "400 \<le> status_code resp" "status_code resp < 600"
  shows "r = Inl (HTTPError resp) \<and> rest = []"
proof -
  have final: "get_redirect_target resp = None"
    by (rule error_not_redirect [OF err])
  have rest: "rest = []"
  proof (cases rest)
    case (Cons nxt post)
    with trace have "http_requests w' = http_requests w @ reqs @ req # nxt # post" by simp
    from fetch_middle [OF run this] reply final show ?thesis by simp
  qed simp
  with trace have "http_requests w' = http_requests w @ reqs @ [req]" by simp
  from fetch_last(1) [OF run this] reply err rest show ?thesis
    by (simp add: finish_reply [OF final] after_reply_def)
qed

section \<open>Properties of \<open>fetch_stock_news\<close>\<close>

text \<open>
  C1. Whenever the upstream has answered the last request of the call with status 200
  and a JSON object that binds \<open>"status"\<close> to \<open>"ok"\<close> and \<open>"articles"\<close> to a list, the
  call returns exactly that list: the same entries, as many, in the same order.
\<close>

theorem fetch_returns_articles:
  assumes "fetch_stock_news ticker hours_back page page_size w = (r, w')"
    and "http_requests w' = http_requests w @ reqs @ [req]"
    and "upstream w (http_requests w @ reqs) req = Some resp"
    and "status_code resp = 200"
    and "content resp = Json (JObj kvs)"
    and "map_of kvs ''status'' = Some (JStr ''ok'')"
    and "map_of kvs ''articles'' = Some (JArr arts)"
  shows "r = Inr (JArr arts)"
proof -
  from assms(4) have "get_redirect_target resp = None"
    by (intro success_not_redirect) simp_all
  then have "finish (Some resp) = after_reply resp"
    by (rule finish_reply)
  with fetch_last(1) [OF assms(1,2)] assms(3,4,5,7) show ?thesis
    by (simp add: after_reply_def)
qed

theorem fetch_returns_articles_witness:
  "fst (fetch_stock_news ''TSLA'' (PyInt 24) 1 5
         (stub_world [(''NEWS_API_KEY'', ''k'')] may_29_2025_8pm
            (Some \<lparr>status_code = 200, location = None,
                   content = Json (JObj [(''status'', JStr ''ok''),
                     (''articles'', JArr [JObj [(''title'', JStr ''A'')],
                                          JObj [(''title'', JStr ''B'')]])])\<rparr>))) =
   Inr (JArr [JObj [(''title'', JStr ''A'')], JObj [(''title'', JStr ''B'')]])"
proof -
  let ?resp = "\<lparr>status_code = 200, location = None,
                   content = Json (JObj [(''status'', JStr ''ok''),
                     (''articles'', JArr [JObj [(''title'', JStr ''A'')],
                                          JObj [(''title'', JStr ''B'')]])])\<rparr>"
  let ?w = "stub_world [(''NEWS_API_KEY'', ''k'')] may_29_2025_8pm (Some ?resp)"
  let ?run = "fetch_stock_news ''TSLA'' (PyInt 24) 1 5 ?w"
  let ?first = "first_request ''TSLA'' (may_29_2025_8pm - 24 * US_PER_HOUR) may_29_2025_8pm 1 5
      (Some ''k'')"
  have frm: "lookback (PyInt 24) ?w = Inr (may_29_2025_8pm - 24 * US_PER_HOUR)"
    by (rule lookback_may_29_24) simp
  have final: "get_redirect_target ?resp = None"
    by (simp add: get_redirect_target_def)
  have run: "?run = (fst ?run, snd ?run)" by simp
  have trace: "http_requests (snd ?run) = http_requests ?w @ [] @ [?first]"
    using fetch_single [OF frm refl, of "''TSLA''" 1 5] final by simp
  have up: "upstream ?w (http_requests ?w @ []) ?first = Some ?resp" by simp
  show ?thesis
    using fetch_returns_articles [OF run trace up] by simp
qed







text \<open>
  C4 says that with \<open>NEWS_API_KEY\<close> absent from the environment the call raises a
  configuration error before any network call. The function never inspects the key: with
  an empty environment the global is \<open>None\<close>, \<open>requests.get\<close> is called with \<open>apiKey\<close> bound to
  \<open>None\<close>, the request goes out without that parameter, and the error raised is the
  \<open>HTTPError\<close> for the upstream's 401 reply, after the network call.
\<close>

theorem fetch_without_key_counterexample:
  "NEWS_API_KEY (stub_world [] may_29_2025_8pm
       (Some \<lparr>status_code = 401, location = None,
              content = Json (JObj [(''status'', JStr ''error'')])\<rparr>)) = None \<and>
   fetch_stock_news ''TSLA'' (PyInt 24) 1 5
     (stub_world [] may_29_2025_8pm
       (Some \<lparr>status_code = 401, location = None,
              content = Json (JObj [(''status'', JStr ''error'')])\<rparr>)) =
   (Inl (HTTPError \<lparr>status_code = 401, location = None,
                    content = Json (JObj [(''status'', JStr ''error'')])\<rparr>),
    stub_world [] may_29_2025_8pm
       (Some \<lparr>status_code = 401, location = None,
              content = Json (JObj [(''status'', JStr ''error'')])\<rparr>)
    \<lparr>clock_reads := 1,
      get_calls :=
        [\<lparr>call_url = ''https://newsapi.org/v2/everything'',
          call_params =
            [(''q'', PStr ''TSLA''),
             (''from'', IsoFormat (may_29_2025_8pm - 24 * US_PER_HOUR)),
             (''to'', IsoFormat may_29_2025_8pm),
             (''language'', PStr ''en''),
             (''sortBy'', PStr ''relevancy''),
             (''page'', PInt 1),
             (''pageSize'', PInt 5),
             (''apiKey'', PNone)]\<rparr>],
      http_requests :=
        [\<lparr>meth = GET, url = ''https://newsapi.org/v2/everything'',
          query =
            [(''q'', PStr ''TSLA''),
             (''from'', IsoFormat (may_29_2025_8pm - 24 * US_PER_HOUR)),
             (''to'', IsoFormat may_29_2025_8pm),
             (''language'', PStr ''en''),
             (''sortBy'', PStr ''relevancy''),
             (''page'', PInt 1),
             (''pageSize'', PInt 5)]\<rparr>]\<rparr>)"
proof -
  let ?resp = "\<lparr>status_code = 401, location = None,
      content = Json (JObj [(''status'', JStr ''error'')])\<rparr>"
  let ?w = "stub_world [] may_29_2025_8pm (Some ?resp)"
  have frm: "lookback (PyInt 24) ?w = Inr (may_29_2025_8pm - 24 * US_PER_HOUR)"
    by (rule lookback_may_29_24) simp
  have final: "get_redirect_target ?resp = None"
    by (simp add: get_redirect_target_def)
  show ?thesis
    using fetch_single [OF frm refl, of "''TSLA''" 1 5] final
    by (simp add: finish_reply after_reply_def built_params_def first_request_def)
qed

text \<open>
  C4, amended. If \<open>NEWS_API_KEY\<close> is absent from the environment the module was loaded
  in, the call raises no error of its own for it: whenever the window start is
  representable it calls \<open>requests.get\<close> once, with \<open>apiKey\<close> bound to \<open>None\<close>, the request
  that goes out has no \<open>apiKey\<close> parameter, and if the upstream answers it with a 4xx or
  5xx status the call raises the \<open>HTTPError\<close> of that reply and sends nothing more.
\<close>

theorem fetch_without_key:
  assumes "env ''NEWS_API_KEY'' = None"
    and "window_ok hours_back w"
    and "fetch_stock_news ticker hours_back page page_size (load_module env w) = (r, w')"
  shows "\<exists>call first rest.
           get_calls w' = get_calls w @ [call] \<and>
           map_of (call_params call) ''apiKey'' = Some PNone \<and>
           http_requests w' = http_requests w @ first # rest \<and>
           map_of (query first) ''apiKey'' = None \<and>
           (\<forall>resp. upstream w (http_requests w) first = Some resp \<longrightarrow>
              400 \<le> status_code resp \<longrightarrow> status_code resp < 600 \<longrightarrow>
              r = Inl (HTTPError resp) \<and> rest = [])"
proof -
  let ?w = "load_module env w"
  have key: "NEWS_API_KEY ?w = None"
    using assms(1) by (simp add: load_module_def os_getenv_def)
  have same: "http_requests ?w = http_requests w" "get_calls ?w = get_calls w"
    "upstream ?w = upstream w" "clock ?w = clock w" "clock_reads ?w = clock_reads w"
    by (simp_all add: load_module_def)
  from assms(2) obtain frm where frm: "lookback hours_back ?w = Inr frm"
    by (auto simp: window_ok_lookback)
  let ?call = "\<lparr>call_url = ''https://newsapi.org/v2/everything'',
      call_params = built_params ticker frm (clock w (clock_reads w)) page page_size None\<rparr>"
  let ?first = "first_request ticker frm (clock w (clock_reads w)) page page_size None"
  from fetch_run [OF frm, of ticker page page_size] assms(3) obtain rest
    where calls: "get_calls w' = get_calls w @ [?call]"
      and trace: "http_requests w' = http_requests w @ ?first # rest"
    unfolding key same by auto
  have err: "r = Inl (HTTPError resp) \<and> rest = []"
    if "upstream w (http_requests w) ?first = Some resp"
      "400 \<le> status_code resp" "status_code resp < 600" for resp
  proof -
    have trace': "http_requests w' = http_requests ?w @ [] @ ?first # rest"
      using trace same by simp
    have up: "upstream ?w (http_requests ?w @ []) ?first = Some resp"
      using that(1) same by simp
    from fetch_http_error_step [OF assms(3) trace' up that(2,3)] show ?thesis .
  qed
  show ?thesis
    using calls trace err
    by (intro exI [of _ ?call] exI [of _ ?first] exI [of _ rest])
      (simp add: built_params_def first_request_def)
qed

theorem fetch_without_key_witness:
  "\<exists>call first.
     get_calls (snd (fetch_stock_news ''TSLA'' (PyInt 24) 1 5
       (load_module Map.empty
          (stub_world [(''NEWS_API_KEY'', ''old'')] may_29_2025_8pm
             (Some \<lparr>status_code = 401, location = None,
                    content = Json (JObj [(''status'', JStr ''error'')])\<rparr>))))) = [call] \<and>
     map_of (call_params call) ''apiKey'' = Some PNone \<and>
     http_requests (snd (fetch_stock_news ''TSLA'' (PyInt 24) 1 5
       (load_module Map.empty
          (stub_world [(''NEWS_API_KEY'', ''old'')] may_29_2025_8pm
             (Some \<lparr>status_code = 401, location = None,
                    content = Json (JObj [(''status'', JStr ''error'')])\<rparr>))))) = [first] \<and>
     map_of (query first) ''apiKey'' = None \<and>
     fst (fetch_stock_news ''TSLA'' (PyInt 24) 1 5
       (load_module Map.empty
          (stub_world [(''NEWS_API_KEY'', ''old'')] may_29_2025_8pm
             (Some \<lparr>status_code = 401, location = None,
                    content = Json (JObj [(''status'', JStr ''error'')])\<rparr>)))) =
       Inl (HTTPError \<lparr>status_code = 401, location = None,
                        content = Json (JObj [(''status'', JStr ''error'')])\<rparr>)"
proof -
  let ?resp = "\<lparr>status_code = 401, location = None,
      content = Json (JObj [(''status'', JStr ''error'')])\<rparr>"
  let ?w = "stub_world [(''NEWS_API_KEY'', ''old'')] may_29_2025_8pm (Some ?resp)"
  let ?run = "fetch_stock_news ''TSLA'' (PyInt 24) 1 5 (load_module Map.empty ?w)"
  have absent: "(Map.empty :: string \<rightharpoonup> string) ''NEWS_API_KEY'' = None" by simp
  have ok: "window_ok (PyInt 24) ?w"
    by (simp add: window_ok_lookback lookback_may_29_24)
  have run: "?run = (fst ?run, snd ?run)" by simp
  from fetch_without_key [OF absent ok run]
  obtain call first rest where "get_calls (snd ?run) = get_calls ?w @ [call]"
    and "map_of (call_params call) ''apiKey'' = Some PNone"
    and "http_requests (snd ?run) = http_requests ?w @ first # rest"
    and "map_of (query first) ''apiKey'' = None"
    and "\<forall>resp. upstream ?w (http_requests ?w) first = Some resp \<longrightarrow>
              400 \<le> status_code resp \<longrightarrow> status_code resp < 600 \<longrightarrow>
              fst ?run = Inl (HTTPError resp) \<and> rest = []"
    by blast
  then show ?thesis
    by (intro exI [of _ call] exI [of _ first]) simp
qed

text \<open>
  C5 says that every call issues exactly one GET, with eight query parameters. With
  \<open>hours_back = 20000000\<close> the window start falls before \<open>datetime.min\<close>, the call raises
  \<open>OverflowError\<close> while it builds \<open>params\<close>, and no request is sent. With the key absent
  the library leaves \<open>apiKey\<close> out and the GET has seven parameters. When the upstream
  answers with a redirect the library follows it, and two GETs go out.
\<close>

theorem fetch_issues_one_get_counterexample:
  "http_requests (snd (fetch_stock_news ''AAPL'' (PyInt 20000000) 1 50
      (stub_world [(''NEWS_API_KEY'', ''k'')] may_29_2025_8pm (Some sample_response)))) = [] \<and>
   http_requests (snd (fetch_stock_news ''AAPL'' (PyInt 1) 1 50
      (stub_world [] may_29_2025_8pm (Some sample_response)))) =
     [\<lparr>meth = GET, url = ''https://newsapi.org/v2/everything'',
       query =
         [(''q'', PStr ''AAPL''),
          (''from'', IsoFormat (may_29_2025_8pm - 1 * US_PER_HOUR)),
          (''to'', IsoFormat may_29_2025_8pm),
          (''language'', PStr ''en''),
          (''sortBy'', PStr ''relevancy''),
          (''page'', PInt 1),
          (''pageSize'', PInt 50)]\<rparr>] \<and>
   http_requests (snd (fetch_stock_news ''AAPL'' (PyInt 1) 1 50
      (scripted_world [(''NEWS_API_KEY'', ''k'')] may_29_2025_8pm
         [\<lparr>status_code = 302, location = Some ''https://www.newsapi.org/v2/everything'',
           content = NotJson ''''\<rparr>,
          sample_response]))) =
     [\<lparr>meth = GET, url = ''https://newsapi.org/v2/everything'',
       query =
         [(''q'', PStr ''AAPL''),
          (''from'', IsoFormat (may_29_2025_8pm - 1 * US_PER_HOUR)),
          (''to'', IsoFormat may_29_2025_8pm),
          (''language'', PStr ''en''),
          (''sortBy'', PStr ''relevancy''),
          (''page'', PInt 1),
          (''pageSize'', PInt 50),
          (''apiKey'', PStr ''k'')]\<rparr>,
      \<lparr>meth = GET, url = ''https://www.newsapi.org/v2/everything'', query = []\<rparr>]"
proof -
  let ?w1 = "stub_world [(''NEWS_API_KEY'', ''k'')] may_29_2025_8pm (Some sample_response)"
  let ?w2 = "stub_world [] may_29_2025_8pm (Some sample_response)"
  let ?moved = "\<lparr>status_code = 302, location = Some ''https://www.newsapi.org/v2/everything'',
      content = NotJson ''''\<rparr>"
  let ?w3 = "scripted_world [(''NEWS_API_KEY'', ''k'')] may_29_2025_8pm [?moved, sample_response]"
  have far: "lookback (PyInt 20000000) ?w1 = Inl OverflowError"
    by (rule lookback_may_29_too_far) simp_all
  have frm2: "lookback (PyInt 1) ?w2 = Inr (may_29_2025_8pm - 1 * US_PER_HOUR)"
    by (rule lookback_may_29_1) simp
  have frm3: "lookback (PyInt 1) ?w3 = Inr (may_29_2025_8pm - 1 * US_PER_HOUR)"
    by (rule lookback_may_29_1) simp
  have final: "get_redirect_target sample_response = None"
    by (simp add: get_redirect_target_def sample_response_def)
  have target: "get_redirect_target ?moved = Some ''https://www.newsapi.org/v2/everything''"
    by (simp add: get_redirect_target_def REDIRECT_STATI_def)
  have a: "http_requests (snd (fetch_stock_news ''AAPL'' (PyInt 20000000) 1 50 ?w1)) = []"
    by (simp add: fetch_overflow [OF far])
  have b: "http_requests (snd (fetch_stock_news ''AAPL'' (PyInt 1) 1 50 ?w2)) =
      [first_request ''AAPL'' (may_29_2025_8pm - 1 * US_PER_HOUR) may_29_2025_8pm 1 50 None]"
    using fetch_single [OF frm2 refl, of "''AAPL''" 1 50] final by simp
  have c: "http_requests (snd (fetch_stock_news ''AAPL'' (PyInt 1) 1 50 ?w3)) =
      [first_request ''AAPL'' (may_29_2025_8pm - 1 * US_PER_HOUR) may_29_2025_8pm 1 50 (Some ''k''),
       \<lparr>meth = GET, url = ''https://www.newsapi.org/v2/everything'', query = []\<rparr>]"
    using fetch_one_redirect [OF frm3 _ target _ final, of "''AAPL''" 1 50] by simp
  show ?thesis
    using a b c by (simp add: first_request_def)
qed

text \<open>
  C5, amended. For every call whose window start is a representable \<open>datetime\<close>, the first
  HTTP request of the call is a GET to \<open>https://newsapi.org/v2/everything\<close> whose query
  parameters are exactly \<open>q\<close>, \<open>from\<close>, \<open>to\<close>, \<open>language\<close>, \<open>sortBy\<close>, \<open>page\<close>, \<open>pageSize\<close> and,
  when \<open>NEWS_API_KEY\<close> is set, \<open>apiKey\<close>, with \<open>q\<close> the ticker, \<open>from\<close> the window start,
  \<open>to\<close> the clock reading, \<open>language\<close> \<open>"en"\<close>, \<open>sortBy\<close> \<open>"relevancy"\<close>, \<open>page\<close> and
  \<open>pageSize\<close> the arguments and \<open>apiKey\<close> the key. At most 30 requests follow it, each a GET
  to the target of the redirect that answered the request before it; when the answer to
  the first request is not a redirect, the first request is the only one.
\<close>

theorem fetch_issues_one_get:
  assumes "lookback hours_back w = Inr frm"
  shows "\<exists>rest.
    http_requests (snd (fetch_stock_news ticker hours_back page page_size w)) =
      http_requests w @
        \<lparr>meth = GET, url = ''https://newsapi.org/v2/everything'',
          query =
            [(''q'', PStr ticker),
             (''from'', IsoFormat frm),
             (''to'', IsoFormat (clock w (clock_reads w))),
             (''language'', PStr ''en''),
             (''sortBy'', PStr ''relevancy''),
             (''page'', PInt page),
             (''pageSize'', PInt page_size)] @
            (case NEWS_API_KEY w of None \<Rightarrow> [] | Some k \<Rightarrow> [(''apiKey'', PStr k)])\<rparr> # rest \<and>
    length rest \<le> 30 \<and>
    redirect_chain (upstream w) (http_requests w)
      \<lparr>meth = GET, url = ''https://newsapi.org/v2/everything'',
        query =
          [(''q'', PStr ticker),
           (''from'', IsoFormat frm),
           (''to'', IsoFormat (clock w (clock_reads w))),
           (''language'', PStr ''en''),
           (''sortBy'', PStr ''relevancy''),
           (''page'', PInt page),
           (''pageSize'', PInt page_size)] @
          (case NEWS_API_KEY w of None \<Rightarrow> [] | Some k \<Rightarrow> [(''apiKey'', PStr k)])\<rparr> rest \<and>
    ((\<forall>resp. upstream w (http_requests w)
         \<lparr>meth = GET, url = ''https://newsapi.org/v2/everything'',
           query =
             [(''q'', PStr ticker),
              (''from'', IsoFormat frm),
              (''to'', IsoFormat (clock w (clock_reads w))),
              (''language'', PStr ''en''),
              (''sortBy'', PStr ''relevancy''),
              (''page'', PInt page),
              (''pageSize'', PInt page_size)] @
             (case NEWS_API_KEY w of None \<Rightarrow> [] | Some k \<Rightarrow> [(''apiKey'', PStr k)])\<rparr> = Some resp \<longrightarrow>
         get_redirect_target resp = None) \<longrightarrow> rest = [])"
proof -
  let ?first = "first_request ticker frm (clock w (clock_reads w)) page page_size (NEWS_API_KEY w)"
  let ?run = "fetch_stock_news ticker hours_back page page_size w"
  from fetch_run [OF assms, of ticker page page_size] obtain rest
    where trace: "http_requests (snd ?run) = http_requests w @ ?first # rest"
      and len: "length rest \<le> 30"
      and chain: "redirect_chain (upstream w) (http_requests w) ?first rest"
    by auto
  have run: "?run = (fst ?run, snd ?run)" by simp
  have "rest = []"
    if "\<forall>resp. upstream w (http_requests w) ?first = Some resp \<longrightarrow> get_redirect_target resp = None"
    by (rule fetch_only_request [OF run trace that])
  with trace len chain show ?thesis
    unfolding first_request_def by (intro exI [of _ rest]) simp
qed

theorem fetch_issues_one_get_witness:
  "http_requests (snd (fetch_stock_news ''TSLA'' (PyInt 24) 1 5
      (stub_world [(''NEWS_API_KEY'', ''k'')] may_29_2025_8pm (Some sample_response)))) =
     [\<lparr>meth = GET, url = ''https://newsapi.org/v2/everything'',
       query =
         [(''q'', PStr ''TSLA''),
          (''from'', IsoFormat (may_29_2025_8pm - 24 * US_PER_HOUR)),
          (''to'', IsoFormat may_29_2025_8pm),
          (''language'', PStr ''en''),
          (''sortBy'', PStr ''relevancy''),
          (''page'', PInt 1),
          (''pageSize'', PInt 5),
          (''apiKey'', PStr ''k'')]\<rparr>]"
proof -
  let ?w = "stub_world [(''NEWS_API_KEY'', ''k'')] may_29_2025_8pm (Some sample_response)"
  have frm: "lookback (PyInt 24) ?w = Inr (may_29_2025_8pm - 24 * US_PER_HOUR)"
    by (rule lookback_may_29_24) simp
  have final: "get_redirect_target sample_response = None"
    by (simp add: get_redirect_target_def sample_response_def)
  from fetch_issues_one_get [OF frm, of "''TSLA''" 1 5] final
  show ?thesis by auto
qed

text \<open>
  C6 says that a successful response whose parsed body misses the expected fields raises
  a parse error. The only field the function looks up is \<open>"articles"\<close>: a body without
  \<open>"status"\<close> and \<open>"totalResults"\<close> is accepted, and the call returns normally.
\<close>

theorem fetch_malformed_body_counterexample:
  "fst (fetch_stock_news ''TSLA'' (PyInt 24) 1 5
          (stub_world [(''NEWS_API_KEY'', ''k'')] may_29_2025_8pm
             (Some \<lparr>status_code = 200, location = None,
                    content = Json (JObj [(''articles'', JArr [])])\<rparr>))) =
   Inr (JArr [])"
proof -
  let ?resp = "\<lparr>status_code = 200, location = None,
      content = Json (JObj [(''articles'', JArr [])])\<rparr>"
  let ?w = "stub_world [(''NEWS_API_KEY'', ''k'')] may_29_2025_8pm (Some ?resp)"
  have frm: "lookback (PyInt 24) ?w = Inr (may_29_2025_8pm - 24 * US_PER_HOUR)"
    by (rule lookback_may_29_24) simp
  have final: "get_redirect_target ?resp = None"
    by (simp add: get_redirect_target_def)
  show ?thesis
    using fetch_single [OF frm refl, of "''TSLA''" 1 5] final
    by (simp add: finish_reply after_reply_def)
qed

text \<open>
  C6, amended. If the last response has a success status (200 to 299) and its body is
  not valid JSON, the call raises \<open>JSONDecodeError\<close>; if the body parses to an object
  without the key \<open>"articles"\<close>, it raises \<open>KeyError\<close> for that key; if it parses to anything
  but an object, it raises \<open>TypeError\<close>; and if it parses to an object with the key
  \<open>"articles"\<close>, the call returns the value bound to it, whatever else the object holds
  or lacks.
\<close>

theorem fetch_malformed_body:
  assumes "fetch_stock_news ticker hours_back page page_size w = (r, w')"
    and "http_requests w' = http_requests w @ reqs @ [req]"
    and "upstream w (http_requests w @ reqs) req = Some resp"
    and "200 \<le> status_code resp"
    and "status_code resp < 300"
  shows "(\<forall>s. content resp = NotJson s \<longrightarrow> r = Inl JSONDecodeError) \<and>
         (\<forall>kvs. content resp = Json (JObj kvs) \<longrightarrow> map_of kvs ''articles'' = None \<longrightarrow>
            r = Inl (KeyError ''articles'')) \<and>
         (\<forall>j. content resp = Json j \<longrightarrow> (\<forall>kvs. j \<noteq> JObj kvs) \<longrightarrow> r = Inl TypeError) \<and>
         (\<forall>kvs v. content resp = Json (JObj kvs) \<longrightarrow> map_of kvs ''articles'' = Some v \<longrightarrow>
            r = Inr v)"
proof -
  have "get_redirect_target resp = None"
    by (rule success_not_redirect [OF assms(4,5)])
  then have "finish (Some resp) = after_reply resp"
    by (rule finish_reply)
  with fetch_last(1) [OF assms(1,2)] assms(3,4,5)
  have r: "r = (case content resp of NotJson s \<Rightarrow> Inl JSONDecodeError
      | Json j \<Rightarrow> getitem j ''articles'')"
    by (simp add: after_reply_def split: content.splits)
  have c: "getitem j ''articles'' = Inl TypeError" if "\<forall>kvs. j \<noteq> JObj kvs" for j
    using that by (cases j) simp_all
  show ?thesis
    using r c by auto
qed

theorem fetch_malformed_body_witness:
  "fst (fetch_stock_news ''TSLA'' (PyInt 24) 1 5
          (stub_world [(''NEWS_API_KEY'', ''k'')] may_29_2025_8pm
             (Some \<lparr>status_code = 200, location = None, content = NotJson ''<html>''\<rparr>))) =
     Inl JSONDecodeError \<and>
   fst (fetch_stock_news ''TSLA'' (PyInt 24) 1 5
          (stub_world [(''NEWS_API_KEY'', ''k'')] may_29_2025_8pm
             (Some \<lparr>status_code = 200, location = None,
                    content = Json (JObj [(''status'', JStr ''ok'')])\<rparr>))) =
     Inl (KeyError ''articles'') \<and>
   fst (fetch_stock_news ''TSLA'' (PyInt 24) 1 5
          (stub_world [(''NEWS_API_KEY'', ''k'')] may_29_2025_8pm
             (Some \<lparr>status_code = 200, location = None, content = Json (JArr [])\<rparr>))) =
     Inl TypeError \<and>
   fst (fetch_stock_news ''TSLA'' (PyInt 24) 1 5
          (stub_world [(''NEWS_API_KEY'', ''k'')] may_29_2025_8pm
             (Some \<lparr>status_code = 200, location = None,
                    content = Json (JObj [(''articles'', JInt 7)])\<rparr>))) =
     Inr (JInt 7)"
proof -
  let ?first = "first_request ''TSLA'' (may_29_2025_8pm - 24 * US_PER_HOUR) may_29_2025_8pm 1 5
      (Some ''k'')"
  have frm: "lookback (PyInt 24) (stub_world [(''NEWS_API_KEY'', ''k'')] may_29_2025_8pm reply) =
      Inr (may_29_2025_8pm - 24 * US_PER_HOUR)" for reply
    by (rule lookback_may_29_24) simp
  have run: "fetch_stock_news ''TSLA'' (PyInt 24) 1 5 w =
      (fst (fetch_stock_news ''TSLA'' (PyInt 24) 1 5 w),
       snd (fetch_stock_news ''TSLA'' (PyInt 24) 1 5 w))" for w
    by simp
  have trace: "http_requests (snd (fetch_stock_news ''TSLA'' (PyInt 24) 1 5
        (stub_world [(''NEWS_API_KEY'', ''k'')] may_29_2025_8pm (Some resp)))) =
      http_requests (stub_world [(''NEWS_API_KEY'', ''k'')] may_29_2025_8pm (Some resp)) @
      [] @ [?first]"
    if "status_code resp = 200" for resp
  proof -
    from that have "get_redirect_target resp = None"
      by (intro success_not_redirect) simp_all
    with fetch_single [OF frm refl, of "Some resp" "''TSLA''" 1 5] show ?thesis by simp
  qed
  have up: "upstream (stub_world [(''NEWS_API_KEY'', ''k'')] may_29_2025_8pm (Some resp))
      (http_requests (stub_world [(''NEWS_API_KEY'', ''k'')] may_29_2025_8pm (Some resp)) @ [])
      ?first = Some resp" for resp
    by simp
  show ?thesis
    using fetch_malformed_body [OF run trace up,
        of "\<lparr>status_code = 200, location = None, content = NotJson ''<html>''\<rparr>"]
      fetch_malformed_body [OF run trace up,
        of "\<lparr>status_code = 200, location = None,
             content = Json (JObj [(''status'', JStr ''ok'')])\<rparr>"]
      fetch_malformed_body [OF run trace up,
        of "\<lparr>status_code = 200, location = None, content = Json (JArr [])\<rparr>"]
      fetch_malformed_body [OF run trace up,
        of "\<lparr>status_code = 200, location = None,
             content = Json (JObj [(''articles'', JInt 7)])\<rparr>"]
    by simp
qed

lemma sample_articles:
  "getitem sample_body ''articles'' =
     Inr (JArr [sample_article_1, sample_article_2, sample_article_3, sample_article_4,
                sample_article_5])"
  by (simp add: sample_body_def)

lemma sample_first:
  "getitem sample_article_1 ''title'' =
     Inr (JStr ''Tesla rival Xiaomi shows off its new SUV in Beijing'')"
  "getitem sample_article_1 ''source'' = Inr (JObj [(''id'', JNull), (''name'', JStr ''Quartz India'')])"
  "getitem sample_article_1 ''publishedAt'' = Inr (JStr ''2025-05-29T17:31:15Z'')"
  by (simp_all add: sample_article_1_def)

text \<open>
  C7. For ticker \<open>"TSLA"\<close>, \<open>hours_back = 24\<close>, \<open>page = 1\<close>, \<open>page_size = 5\<close> and an upstream
  that answers with the captured sample, the call returns five articles; the first has
  title "Tesla rival Xiaomi shows off its new SUV in Beijing", source name "Quartz India"
  and publication time "2025-05-29T17:31:15Z".
\<close>

theorem fetch_captured_sample:
  assumes "\<forall>hist req. upstream w hist req = Some sample_response"
    and "window_ok (PyInt 24) w"
  shows "\<exists>arts src.
           fst (fetch_stock_news ''TSLA'' (PyInt 24) 1 5 w) = Inr (JArr arts) \<and> length arts = 5 \<and>
           getitem (arts ! 0) ''title'' =
             Inr (JStr ''Tesla rival Xiaomi shows off its new SUV in Beijing'') \<and>
           getitem (arts ! 0) ''source'' = Inr src \<and>
           getitem src ''name'' = Inr (JStr ''Quartz India'') \<and>
           getitem (arts ! 0) ''publishedAt'' = Inr (JStr ''2025-05-29T17:31:15Z'')"
proof -
  from assms(2) obtain frm where frm: "lookback (PyInt 24) w = Inr frm"
    by (auto simp: window_ok_lookback)
  have final: "get_redirect_target sample_response = None"
    by (simp add: get_redirect_target_def sample_response_def)
  have "fst (fetch_stock_news ''TSLA'' (PyInt 24) 1 5 w) =
      Inr (JArr [sample_article_1, sample_article_2, sample_article_3, sample_article_4,
                 sample_article_5])"
    using fetch_single [OF frm refl, of "''TSLA''" 1 5] assms(1) final
    by (simp add: finish_reply after_reply_def sample_response_def sample_articles)
  then show ?thesis
    by (intro exI [of _ "[sample_article_1, sample_article_2, sample_article_3,
          sample_article_4, sample_article_5]"]
        exI [of _ "JObj [(''id'', JNull), (''name'', JStr ''Quartz India'')]"])
      (simp add: sample_first)
qed

theorem fetch_captured_sample_witness:
  "\<exists>arts src.
     fst (fetch_stock_news ''TSLA'' (PyInt 24) 1 5
            (stub_world [(''NEWS_API_KEY'', ''k'')] may_29_2025_8pm (Some sample_response))) =
       Inr (JArr arts) \<and> length arts = 5 \<and>
     getitem (arts ! 0) ''title'' =
       Inr (JStr ''Tesla rival Xiaomi shows off its new SUV in Beijing'') \<and>
     getitem (arts ! 0) ''source'' = Inr src \<and>
     getitem src ''name'' = Inr (JStr ''Quartz India'') \<and>
     getitem (arts ! 0) ''publishedAt'' = Inr (JStr ''2025-05-29T17:31:15Z'')"
proof -
  let ?w = "stub_world [(''NEWS_API_KEY'', ''k'')] may_29_2025_8pm (Some sample_response)"
  have up: "\<forall>hist req. upstream ?w hist req = Some sample_response" by simp
  have ok: "window_ok (PyInt 24) ?w"
    by (simp add: window_ok_lookback lookback_may_29_24)
  show ?thesis
    by (rule fetch_captured_sample [OF up ok])
qed




text \<open>
  C9. On every last response with a success status whose body parses, the call prints the
  whole parsed body, and that is all it prints; what it then returns or raises is the
  lookup of \<open>"articles"\<close> in that body. The standard output after the call differs from the
  one before: the function is not pure with respect to output.
\<close>

theorem fetch_prints_body:
  assumes "fetch_stock_news ticker hours_back page page_size w = (r, w')"
    and "http_requests w' = http_requests w @ reqs @ [req]"
    and "upstream w (http_requests w @ reqs) req = Some resp"
    and "200 \<le> status_code resp"
    and "status_code resp < 300"
    and "content resp = Json j"
  shows "stdout w' = stdout w @ [j] \<and> stdout w' \<noteq> stdout w \<and> r = getitem j ''articles''"
proof -
  have "get_redirect_target resp = None"
    by (rule success_not_redirect [OF assms(4,5)])
  then have "finish (Some resp) = after_reply resp"
    by (rule finish_reply)
  with fetch_last(1,2) [OF assms(1,2)] assms(3,4,5,6) show ?thesis
    by (simp add: after_reply_def)
qed

theorem fetch_prints_body_witness:
  "stdout (snd (fetch_stock_news ''TSLA'' (PyInt 24) 1 5
      (stub_world [(''NEWS_API_KEY'', ''k'')] may_29_2025_8pm (Some sample_response)))) =
   [sample_body]"
proof -
  let ?w = "stub_world [(''NEWS_API_KEY'', ''k'')] may_29_2025_8pm (Some sample_response)"
  let ?run = "fetch_stock_news ''TSLA'' (PyInt 24) 1 5 ?w"
  let ?first = "first_request ''TSLA'' (may_29_2025_8pm - 24 * US_PER_HOUR) may_29_2025_8pm 1 5
      (Some ''k'')"
  have frm: "lookback (PyInt 24) ?w = Inr (may_29_2025_8pm - 24 * US_PER_HOUR)"
    by (rule lookback_may_29_24) simp
  have final: "get_redirect_target sample_response = None"
    by (simp add: get_redirect_target_def sample_response_def)
  have run: "?run = (fst ?run, snd ?run)" by simp
  have trace: "http_requests (snd ?run) = http_requests ?w @ [] @ [?first]"
    using fetch_single [OF frm refl, of "''TSLA''" 1 5] final by simp
  have up: "upstream ?w (http_requests ?w @ []) ?first = Some sample_response" by simp
  have st: "200 \<le> status_code sample_response" "status_code sample_response < 300"
    and body: "content sample_response = Json sample_body"
    by (simp_all add: sample_response_def)
  show ?thesis
    using fetch_prints_body [OF run trace up st body] by simp
qed

text \<open>
  C10. A call that gives only the ticker behaves as the call with \<open>hours_back = 1\<close>,
  \<open>page = 1\<close> and \<open>page_size = 50\<close>; whenever the clock stands at least one hour after
  \<open>datetime.min\<close>, its one call of \<open>requests.get\<close>, and the first request that goes out,
  cover the hour before the clock reading and ask for page 1 with page size 50.
\<close>

theorem fetch_defaults:
  "call_fetch_stock_news ticker None None None w = fetch_stock_news ticker (PyInt 1) 1 50 w \<and>
   (window_ok (PyInt 1) w \<longrightarrow>
      get_calls (snd (call_fetch_stock_news ticker None None None w)) =
      get_calls w @
        [\<lparr>call_url = ''https://newsapi.org/v2/everything'',
          call_params =
            [(''q'', PStr ticker),
             (''from'', IsoFormat (clock w (clock_reads w) - 1 * US_PER_HOUR)),
             (''to'', IsoFormat (clock w (clock_reads w))),
             (''language'', PStr ''en''),
             (''sortBy'', PStr ''relevancy''),
             (''page'', PInt 1),
             (''pageSize'', PInt 50),
             (''apiKey'', (case NEWS_API_KEY w of None \<Rightarrow> PNone | Some k \<Rightarrow> PStr k))]\<rparr>] \<and>
      (\<exists>rest. http_requests (snd (call_fetch_stock_news ticker None None None w)) =
         http_requests w @
           \<lparr>meth = GET, url = ''https://newsapi.org/v2/everything'',
             query =
               [(''q'', PStr ticker),
                (''from'', IsoFormat (clock w (clock_reads w) - 1 * US_PER_HOUR)),
                (''to'', IsoFormat (clock w (clock_reads w))),
                (''language'', PStr ''en''),
                (''sortBy'', PStr ''relevancy''),
                (''page'', PInt 1),
                (''pageSize'', PInt 50)] @
               (case NEWS_API_KEY w of None \<Rightarrow> [] | Some k \<Rightarrow> [(''apiKey'', PStr k)])\<rparr> # rest))"
proof -
  have eq: "call_fetch_stock_news ticker None None None w = fetch_stock_news ticker (PyInt 1) 1 50 w"
    by (simp add: call_fetch_stock_news_def)
  have sent: "get_calls (snd (fetch_stock_news ticker (PyInt 1) 1 50 w)) =
      get_calls w @
        [\<lparr>call_url = ''https://newsapi.org/v2/everything'',
          call_params = built_params ticker (clock w (clock_reads w) - 1 * US_PER_HOUR)
            (clock w (clock_reads w)) 1 50 (NEWS_API_KEY w)\<rparr>] \<and>
      (\<exists>rest. http_requests (snd (fetch_stock_news ticker (PyInt 1) 1 50 w)) =
         http_requests w @
           first_request ticker (clock w (clock_reads w) - 1 * US_PER_HOUR)
             (clock w (clock_reads w)) 1 50 (NEWS_API_KEY w) # rest)"
    if "window_ok (PyInt 1) w"
  proof -
    from that have frm: "lookback (PyInt 1) w = Inr (clock w (clock_reads w) - 1 * US_PER_HOUR)"
      by (simp add: window_ok_int lookback_int)
    from fetch_run [OF frm, of ticker 1 50] show ?thesis by auto
  qed
  show ?thesis
    using sent unfolding eq built_params_def first_request_def by simp
qed

theorem fetch_defaults_witness:
  "get_calls (snd (call_fetch_stock_news ''TSLA'' None None None
      (stub_world [(''NEWS_API_KEY'', ''k'')] may_29_2025_8pm (Some sample_response)))) =
     [\<lparr>call_url = ''https://newsapi.org/v2/everything'',
       call_params =
         [(''q'', PStr ''TSLA''),
          (''from'', IsoFormat (may_29_2025_8pm - 1 * US_PER_HOUR)),
          (''to'', IsoFormat may_29_2025_8pm),
          (''language'', PStr ''en''),
          (''sortBy'', PStr ''relevancy''),
          (''page'', PInt 1),
          (''pageSize'', PInt 50),
          (''apiKey'', PStr ''k'')]\<rparr>]"
proof -
  let ?w = "stub_world [(''NEWS_API_KEY'', ''k'')] may_29_2025_8pm (Some sample_response)"
  have ok: "window_ok (PyInt 1) ?w"
    by (simp add: window_ok_lookback lookback_may_29_1)
  from fetch_defaults [of "''TSLA''" ?w, THEN conjunct2, rule_format, OF ok, THEN conjunct1]
  show ?thesis by simp
qed

end
